theory Spec2Isabelle
  imports Main "HOL-Library.Finite_Map" "HOL-Library.Sublist"
begin

section \<open>The example wpull/seesaw pipeline (pipeline.py)\<close>

text \<open>
  The pipeline definition is a module of constants, three task classes (\<open>CheckIP\<close>,
  \<open>PrepareDirectories\<close>, \<open>MoveFiles\<close>), an argument builder (\<open>WgetArgs\<close>) and a stats
  function. Each task's \<open>process(item)\<close> method is embedded as a function from the state
  it reads (the item dictionary, the task object's own fields, the file system, the
  clock, the name resolver) to an outcome and the state it leaves behind. A raised
  exception is the \<open>Inl\<close> branch of the outcome; the state returned with it is the state
  at the moment of the raise.
\<close>

subsection \<open>Module constants\<close>

definition VERSION :: string where
  "VERSION = ''20150321.01''"

definition USER_AGENT :: string where
  "USER_AGENT = ''ArchiveTeam''"

definition TRACKER_ID :: string where
  "TRACKER_ID = ''examplecity''"

subsection \<open>Errors and items\<close>

datatype error =
    KeyError string
  | OSError string
  | GaiError string
  | ValueError string
  | Exception string

text \<open>
  An item is a dictionary from string keys to values; every value the pipeline stores
  or reads is a string. \<open>item[k]\<close> raises \<open>KeyError\<close> on a missing key.
\<close>

type_synonym item = "string \<rightharpoonup> string"

definition getitem :: "item \<Rightarrow> string \<Rightarrow> error + string" where
  "getitem item k = (case item k of None \<Rightarrow> Inl (KeyError k) | Some v \<Rightarrow> Inr v)"

subsection \<open>Sanitising the item name\<close>

text \<open>
  \<open>str.replace(old, new)\<close> with a one-character \<open>old\<close> replaces every occurrence of
  that character. The stager calls it twice:
  \<open>item_name.replace(':', '_').replace('/', '_')\<close>.
\<close>

definition replace :: "char \<Rightarrow> char \<Rightarrow> string \<Rightarrow> string" where
  "replace old new s = map (\<lambda>c. if c = old then new else c) s"

definition escape_item_name :: "string \<Rightarrow> string" where
  "escape_item_name item_name = replace (CHR ''/'') (CHR ''_'') (replace (CHR '':'') (CHR ''_'') item_name)"

text \<open>\<open>"/".join((a, b))\<close>\<close>

definition join_slash :: "string \<Rightarrow> string \<Rightarrow> string" where
  "join_slash a b = a @ ''/'' @ b"

subsection \<open>String interpolation\<close>

text \<open>
  \<open>template % item\<close> with the one conversion the pipeline uses, \<open>%(key)s\<close>: the
  template is scanned left to right; a missing key raises \<open>KeyError\<close> where it is met.
  \<open>%%\<close> is a literal percent sign; any other conversion is reported as a
  \<open>ValueError\<close> (the pipeline has none).
\<close>

datatype fstate = Plain | Percent | Key string | Conv string

fun interpolate_from :: "fstate \<Rightarrow> item \<Rightarrow> string \<Rightarrow> error + string" where
  "interpolate_from Plain item [] = Inr []"
| "interpolate_from Plain item (c # cs) =
     (if c = CHR ''%'' then interpolate_from Percent item cs
      else (case interpolate_from Plain item cs of Inl e \<Rightarrow> Inl e | Inr r \<Rightarrow> Inr (c # r)))"
| "interpolate_from Percent item [] = Inl (ValueError ''incomplete format'')"
| "interpolate_from Percent item (c # cs) =
     (if c = CHR ''('' then interpolate_from (Key []) item cs
      else if c = CHR ''%'' then
        (case interpolate_from Plain item cs of Inl e \<Rightarrow> Inl e | Inr r \<Rightarrow> Inr (CHR ''%'' # r))
      else Inl (ValueError ''unsupported format character''))"
| "interpolate_from (Key k) item [] = Inl (ValueError ''incomplete format key'')"
| "interpolate_from (Key k) item (c # cs) =
     (if c = CHR '')'' then interpolate_from (Conv k) item cs
      else interpolate_from (Key (k @ [c])) item cs)"
| "interpolate_from (Conv k) item [] = Inl (ValueError ''incomplete format'')"
| "interpolate_from (Conv k) item (c # cs) =
     (if c = CHR ''s'' then
        (case item k of
           None \<Rightarrow> Inl (KeyError k)
         | Some v \<Rightarrow>
             (case interpolate_from Plain item cs of Inl e \<Rightarrow> Inl e | Inr r \<Rightarrow> Inr (v @ r)))
      else Inl (ValueError ''unsupported format character''))"

definition interpolate :: "string \<Rightarrow> item \<Rightarrow> error + string" where
  "interpolate template item = interpolate_from Plain item template"

subsection \<open>The clock\<close>

text \<open>
  \<open>time.strftime(format)\<close> formats \<open>time.localtime()\<close>, a broken-down time whose
  finest field is the second. The record keeps the six fields that the format
  \<open>%Y%m%d-%H%M%S\<close> reads.
\<close>

record struct_time =
  tm_year :: nat
  tm_mon :: nat
  tm_mday :: nat
  tm_hour :: nat
  tm_min :: nat
  tm_sec :: nat

definition digit :: "nat \<Rightarrow> char" where
  "digit n = ''0123456789'' ! (n mod 10)"

function decimal :: "nat \<Rightarrow> string" where
  "decimal n = (if n < 10 then [digit n] else decimal (n div 10) @ [digit n])"
  by pat_completeness auto
termination
  by (relation "measure (\<lambda>n. n)") auto

declare decimal.simps [simp del]

text \<open>\<open>%m\<close>, \<open>%d\<close>, \<open>%H\<close>, \<open>%M\<close>, \<open>%S\<close>: two digits, zero padded.\<close>

definition pad2 :: "nat \<Rightarrow> string" where
  "pad2 n = [digit (n div 10), digit n]"

text \<open>\<open>time.strftime("%Y%m%d-%H%M%S")\<close>\<close>

definition strftime :: "struct_time \<Rightarrow> string" where
  "strftime t =
     decimal (tm_year t) @ pad2 (tm_mon t) @ pad2 (tm_mday t) @ ''-'' @
     pad2 (tm_hour t) @ pad2 (tm_min t) @ pad2 (tm_sec t)"

subsection \<open>The file system\<close>

text \<open>
  The file system is a tree: a node is a file with its content or a directory with its
  entries. A path string is read as its components, the non-empty pieces between
  slashes; repeated and trailing slashes are ignored, as POSIX does. Relative and
  absolute paths are resolved from the same root directory, there are no links, and
  the names \<open>.\<close> and \<open>..\<close> are not interpreted.
\<close>

datatype node = File string | Dir "(string, node) fmap"

type_synonym fs = node

fun split_path :: "string \<Rightarrow> string \<Rightarrow> string list" where
  "split_path cur [] = [cur]"
| "split_path cur (c # cs) =
     (if c = CHR ''/'' then cur # split_path [] cs else split_path (cur @ [c]) cs)"

definition components :: "string \<Rightarrow> string list" where
  "components p = filter (\<lambda>c. c \<noteq> []) (split_path [] p)"

fun lookup :: "node \<Rightarrow> string list \<Rightarrow> node option" where
  "lookup n [] = Some n"
| "lookup (File s) (c # cs) = None"
| "lookup (Dir m) (c # cs) = (case fmlookup m c of None \<Rightarrow> None | Some n \<Rightarrow> lookup n cs)"

text \<open>\<open>os.path.exists\<close> and \<open>os.path.isdir\<close>; both are false on the empty string.\<close>

definition exists_path :: "fs \<Rightarrow> string \<Rightarrow> bool" where
  "exists_path fs p = (p \<noteq> [] \<and> lookup fs (components p) \<noteq> None)"

definition isdir :: "fs \<Rightarrow> string \<Rightarrow> bool" where
  "isdir fs p =
     (p \<noteq> [] \<and> (case lookup fs (components p) of Some (Dir m) \<Rightarrow> True | _ \<Rightarrow> False))"

text \<open>Taking an entry (with everything below it) out of the tree.\<close>

fun remove :: "string list \<Rightarrow> node \<Rightarrow> node" where
  "remove [] n = n"
| "remove (c # cs) (File s) = File s"
| "remove (c # cs) (Dir m) =
     (if cs = [] then Dir (fmdrop c m)
      else (case fmlookup m c of None \<Rightarrow> Dir m | Some n \<Rightarrow> Dir (fmupd c (remove cs n) m)))"

text \<open>Placing a node at a path whose parent directory exists.\<close>

fun put :: "string list \<Rightarrow> node \<Rightarrow> node \<Rightarrow> node" where
  "put [] new n = new"
| "put (c # cs) new (File s) = File s"
| "put (c # cs) new (Dir m) =
     (if cs = [] then Dir (fmupd c new m)
      else (case fmlookup m c of None \<Rightarrow> Dir m | Some n \<Rightarrow> Dir (fmupd c (put cs new n) m)))"

text \<open>
  \<open>shutil.rmtree(path)\<close>: the path must be a directory; the directory goes with all
  it holds. The root directory itself cannot be removed: its entries go, then the call
  raises.
\<close>

definition rmtree :: "fs \<Rightarrow> string \<Rightarrow> (error + unit) \<times> fs" where
  "rmtree fs p =
     (if p = [] then (Inl (OSError ''FileNotFoundError''), fs)
      else (case lookup fs (components p) of
        None \<Rightarrow> (Inl (OSError ''FileNotFoundError''), fs)
      | Some (File s) \<Rightarrow> (Inl (OSError ''NotADirectoryError''), fs)
      | Some (Dir m) \<Rightarrow>
          (if components p = [] then (Inl (OSError ''EBUSY''), Dir fmempty)
           else (Inr (), remove (components p) fs))))"

text \<open>
  \<open>os.makedirs(name)\<close>: walks down the path; the first missing component and all
  after it are created as directories. A file on the way raises
  \<open>NotADirectoryError\<close>; a path that already exists raises \<open>FileExistsError\<close>. Nothing
  is created when it raises.
\<close>

fun fresh_dirs :: "string list \<Rightarrow> node" where
  "fresh_dirs [] = Dir fmempty"
| "fresh_dirs (c # cs) = Dir (fmupd c (fresh_dirs cs) fmempty)"

fun makedirs_at :: "string list \<Rightarrow> node \<Rightarrow> error + node" where
  "makedirs_at [] n = Inl (OSError ''FileExistsError'')"
| "makedirs_at (c # cs) (File s) = Inl (OSError ''NotADirectoryError'')"
| "makedirs_at (c # cs) (Dir m) =
     (case fmlookup m c of
        None \<Rightarrow> Inr (Dir (fmupd c (fresh_dirs cs) m))
      | Some n \<Rightarrow>
          (case makedirs_at cs n of Inl e \<Rightarrow> Inl e | Inr n' \<Rightarrow> Inr (Dir (fmupd c n' m))))"

definition makedirs :: "fs \<Rightarrow> string \<Rightarrow> (error + unit) \<times> fs" where
  "makedirs fs p =
     (if p = [] then (Inl (OSError ''FileNotFoundError''), fs)
      else (case makedirs_at (components p) fs of
        Inl e \<Rightarrow> (Inl e, fs)
      | Inr fs' \<Rightarrow> (Inr (), fs')))"

text \<open>
  \<open>open(path, "w").close()\<close>: the parent directory must exist; the file is created
  empty, or truncated when it is there already; a directory at the path raises.
\<close>

fun create_at :: "string list \<Rightarrow> node \<Rightarrow> error + node" where
  "create_at [] n = Inl (OSError ''IsADirectoryError'')"
| "create_at (c # cs) (File s) = Inl (OSError ''NotADirectoryError'')"
| "create_at (c # cs) (Dir m) =
     (if cs = [] then
        (case fmlookup m c of
           Some (Dir m') \<Rightarrow> Inl (OSError ''IsADirectoryError'')
         | _ \<Rightarrow> Inr (Dir (fmupd c (File []) m)))
      else
        (case fmlookup m c of
           None \<Rightarrow> Inl (OSError ''FileNotFoundError'')
         | Some n \<Rightarrow>
             (case create_at cs n of Inl e \<Rightarrow> Inl e | Inr n' \<Rightarrow> Inr (Dir (fmupd c n' m)))))"

definition open_w_close :: "fs \<Rightarrow> string \<Rightarrow> (error + unit) \<times> fs" where
  "open_w_close fs p =
     (if p = [] then (Inl (OSError ''FileNotFoundError''), fs)
      else (case create_at (components p) fs of
        Inl e \<Rightarrow> (Inl e, fs)
      | Inr fs' \<Rightarrow> (Inr (), fs')))"

text \<open>
  \<open>os.rename(src, dst)\<close>: the source must exist and the destination's parent must be
  a directory. A file replaces a file; an empty directory may be replaced by a
  directory; every other combination raises and changes nothing.
\<close>

definition rename :: "fs \<Rightarrow> string \<Rightarrow> string \<Rightarrow> (error + unit) \<times> fs" where
  "rename fs src dst =
     (let s = components src; d = components dst in
      if src = [] \<or> dst = [] then (Inl (OSError ''FileNotFoundError''), fs)
      else (case lookup fs s of
        None \<Rightarrow> (Inl (OSError ''FileNotFoundError''), fs)
      | Some n \<Rightarrow>
          if s = [] \<or> d = [] then (Inl (OSError ''EBUSY''), fs)
          else (case lookup fs (butlast d) of
            None \<Rightarrow> (Inl (OSError ''FileNotFoundError''), fs)
          | Some (File c) \<Rightarrow> (Inl (OSError ''NotADirectoryError''), fs)
          | Some (Dir pm) \<Rightarrow>
              if s = d then (Inr (), fs)
              else (case (n, lookup fs d) of
                (File c, Some (Dir m')) \<Rightarrow> (Inl (OSError ''IsADirectoryError''), fs)
              | (File c, _) \<Rightarrow> (Inr (), put d n (remove s fs))
              | (Dir m, Some (File c')) \<Rightarrow> (Inl (OSError ''NotADirectoryError''), fs)
              | (Dir m, Some (Dir m')) \<Rightarrow>
                  if m' \<noteq> fmempty then (Inl (OSError ''ENOTEMPTY''), fs)
                  else if prefix s d then (Inl (OSError ''EINVAL''), fs)
                  else (Inr (), put d n (remove s fs))
              | (Dir m, None) \<Rightarrow>
                  if prefix s d then (Inl (OSError ''EINVAL''), fs)
                  else (Inr (), put d n (remove s fs))))))"

subsection \<open>CheckIP\<close>

text \<open>
  The task object holds one field, \<open>_counter\<close>, set to 0 by the constructor.
  \<open>socket.gethostbyname\<close> is the environment: a resolver that answers a hostname with
  an address or fails (\<open>socket.gaierror\<close>). Besides the outcome and the task object,
  \<open>process\<close> returns the hostnames it asked the resolver about, in order; the messages
  written to the item's log are left out, no task reads them.
\<close>

record checkip =
  counter :: int

type_synonym resolver = "string \<Rightarrow> string option"

definition CheckIP_init :: checkip where
  "CheckIP_init = \<lparr>counter = 0\<rparr>"

definition hostnames :: "string list" where
  "hostnames =
     [''twitter.com'', ''facebook.com'', ''youtube.com'', ''microsoft.com'',
      ''icanhas.cheezburger.com'', ''archiveteam.org'']"

fun add_resolved :: "resolver \<Rightarrow> string list \<Rightarrow> string set \<Rightarrow> (error + string set) \<times> string list" where
  "add_resolved gethostbyname [] ip_set = (Inr ip_set, [])"
| "add_resolved gethostbyname (h # hs) ip_set =
     (case gethostbyname h of
        None \<Rightarrow> (Inl (GaiError h), [h])
      | Some ip \<Rightarrow>
          (case add_resolved gethostbyname hs (insert ip ip_set) of (r, asked) \<Rightarrow> (r, h # asked)))"

definition firewall_message :: string where
  "firewall_message = ''You are behind a firewall or proxy. That is a big no-no!''"

text \<open>The second block of \<open>process\<close>: "check only occasionally".\<close>

definition occasionally :: "checkip \<Rightarrow> checkip" where
  "occasionally self =
     (if counter self \<le> 0 then self\<lparr>counter := 10\<rparr>
      else self\<lparr>counter := counter self - 1\<rparr>)"

definition CheckIP_process :: "resolver \<Rightarrow> checkip \<Rightarrow> (error + unit) \<times> checkip \<times> string list" where
  "CheckIP_process gethostbyname self =
     (if counter self \<le> 0 then
        (case add_resolved gethostbyname hostnames {} of
           (Inl e, asked) \<Rightarrow> (Inl e, self, asked)
         | (Inr ip_set, asked) \<Rightarrow>
             if card ip_set \<noteq> 6 then (Inl (Exception firewall_message), self, asked)
             else (Inr (), occasionally self, asked))
      else (Inr (), occasionally self, []))"


subsection \<open>PrepareDirectories\<close>

record prepare_directories =
  warc_prefix :: string

text \<open>\<open>"%s-%s-%s" % (a, b, c)\<close>\<close>

definition dash3 :: "string \<Rightarrow> string \<Rightarrow> string \<Rightarrow> string" where
  "dash3 a b c = a @ ''-'' @ b @ ''-'' @ c"

definition PrepareDirectories_process ::
  "prepare_directories \<Rightarrow> struct_time \<Rightarrow> item \<Rightarrow> fs \<Rightarrow> (error + unit) \<times> item \<times> fs" where
  "PrepareDirectories_process self now item fs =
     (case getitem item ''item_name'' of
        Inl e \<Rightarrow> (Inl e, item, fs)
      | Inr item_name \<Rightarrow>
     let escaped_item_name = escape_item_name item_name;
         item1 = item(''escaped_item_name'' \<mapsto> escaped_item_name)
     in (case getitem item1 ''data_dir'' of
        Inl e \<Rightarrow> (Inl e, item1, fs)
      | Inr data_dir \<Rightarrow>
     let dirname = join_slash data_dir escaped_item_name
     in (case (if isdir fs dirname then rmtree fs dirname else (Inr (), fs)) of
        (Inl e, fs1) \<Rightarrow> (Inl e, item1, fs1)
      | (Inr u, fs1) \<Rightarrow>
     (case makedirs fs1 dirname of
        (Inl e, fs2) \<Rightarrow> (Inl e, item1, fs2)
      | (Inr u, fs2) \<Rightarrow>
     let item2 = item1(''item_dir'' \<mapsto> dirname);
         item3 = item2(''warc_file_base'' \<mapsto>
                   dash3 (warc_prefix self) escaped_item_name (strftime now))
     in (case interpolate ''%(item_dir)s/%(warc_file_base)s.warc.gz'' item3 of
        Inl e \<Rightarrow> (Inl e, item3, fs2)
      | Inr path \<Rightarrow>
     (case open_w_close fs2 path of
        (Inl e, fs3) \<Rightarrow> (Inl e, item3, fs3)
      | (Inr u, fs3) \<Rightarrow> (Inr (), item3, fs3)))))))"

subsection \<open>MoveFiles\<close>

definition zlib_message :: string where
  "zlib_message = ''Please compile wget with zlib support!''"

definition MoveFiles_process :: "item \<Rightarrow> fs \<Rightarrow> (error + unit) \<times> fs" where
  "MoveFiles_process item fs =
     (case interpolate ''%(item_dir)s/%(warc_file_base)s.warc'' item of
        Inl e \<Rightarrow> (Inl e, fs)
      | Inr warc \<Rightarrow>
     if exists_path fs warc then (Inl (Exception zlib_message), fs)
     else (case interpolate ''%(item_dir)s/%(warc_file_base)s.warc.gz'' item of
        Inl e \<Rightarrow> (Inl e, fs)
      | Inr src \<Rightarrow>
     (case interpolate ''%(data_dir)s/%(warc_file_base)s.warc.gz'' item of
        Inl e \<Rightarrow> (Inl e, fs)
      | Inr dst \<Rightarrow>
     (case rename fs src dst of
        (Inl e, fs1) \<Rightarrow> (Inl e, fs1)
      | (Inr u, fs1) \<Rightarrow>
     (case interpolate ''%(item_dir)s'' item of
        Inl e \<Rightarrow> (Inl e, fs1)
      | Inr item_dir \<Rightarrow> rmtree fs1 item_dir)))))"

subsection \<open>Hashes and the stats function\<close>

text \<open>
  \<open>get_hash\<close> reads a file and returns the hexadecimal SHA-1 digest of its bytes; the
  digest function is a parameter. The module calls it twice when it is loaded, for
  \<open>pipeline.py\<close> and \<open>examplecity.py\<close> in the working directory, and keeps the results
  in module variables together with the interpreter's \<open>sys.version\<close>.
\<close>

definition get_hash :: "(string \<Rightarrow> string) \<Rightarrow> fs \<Rightarrow> string \<Rightarrow> error + string" where
  "get_hash sha1_hexdigest fs filename =
     (if filename = [] then Inl (OSError ''FileNotFoundError'')
      else (case lookup fs (components filename) of
        None \<Rightarrow> Inl (OSError ''FileNotFoundError'')
      | Some (Dir m) \<Rightarrow> Inl (OSError ''IsADirectoryError'')
      | Some (File bytes) \<Rightarrow> Inr (sha1_hexdigest bytes)))"

record globals =
  PIPELINE_SHA1 :: string
  SCRIPT_SHA1 :: string
  sys_version :: string

definition load_hashes :: "(string \<Rightarrow> string) \<Rightarrow> fs \<Rightarrow> string \<Rightarrow> string \<Rightarrow> error + globals" where
  "load_hashes sha1_hexdigest fs CWD version =
     (case get_hash sha1_hexdigest fs (join_slash CWD ''pipeline.py'') of
        Inl e \<Rightarrow> Inl e
      | Inr h1 \<Rightarrow>
     (case get_hash sha1_hexdigest fs (join_slash CWD ''examplecity.py'') of
        Inl e \<Rightarrow> Inl e
      | Inr h2 \<Rightarrow> Inr \<lparr>PIPELINE_SHA1 = h1, SCRIPT_SHA1 = h2, sys_version = version\<rparr>))"

definition stats_id_function :: "globals \<Rightarrow> item \<Rightarrow> (string \<rightharpoonup> string)" where
  "stats_id_function g item =
     [''pipeline_hash'' \<mapsto> PIPELINE_SHA1 g,
      ''script_hash'' \<mapsto> SCRIPT_SHA1 g,
      ''python_version'' \<mapsto> sys_version g]"

subsection \<open>WgetArgs\<close>

text \<open>
  Modelled from the spec: \<open>seesaw.config.realize\<close> and \<open>ItemInterpolation\<close>, library
  code that the builder calls; the spec has the path-bearing arguments built by
  substituting the current item fields at build time. An argument is a plain string or
  an \<open>ItemInterpolation\<close>, a template that is interpolated with the item when the list
  is realised: lists element by element, an \<open>ItemInterpolation\<close> by \<open>template % item\<close>, a
  string as it is.
\<close>

datatype arg = Str string | ItemInterpolation string

fun realize :: "arg list \<Rightarrow> item \<Rightarrow> error + string list" where
  "realize [] item = Inr []"
| "realize (Str s # as) item =
     (case realize as item of Inl e \<Rightarrow> Inl e | Inr rs \<Rightarrow> Inr (s # rs))"
| "realize (ItemInterpolation t # as) item =
     (case interpolate t item of
        Inl e \<Rightarrow> Inl e
      | Inr s \<Rightarrow> (case realize as item of Inl e \<Rightarrow> Inl e | Inr rs \<Rightarrow> Inr (s # rs)))"

text \<open>
  \<open>WgetArgs.realize\<close>. \<open>WPULL_EXE\<close> is the executable found when the module is loaded
  and \<open>bind_address\<close> the optional module variable of that name; both are parameters.
  The lines printed when a bind address is set are left out.
\<close>

definition wget_args :: "string \<Rightarrow> arg list" where
  "wget_args WPULL_EXE =
     [Str WPULL_EXE,
      Str ''-nv'',
      Str ''--python-script'', Str ''examplecity.py'',
      Str ''-o'', ItemInterpolation ''%(item_dir)s/wpull.log'',
      Str ''--no-check-certificate'',
      Str ''--database'', ItemInterpolation ''%(item_dir)s/wpull.db'',
      Str ''--delete-after'',
      Str ''--no-robots'',
      Str ''--no-cookies'',
      Str ''--rotate-dns'',
      Str ''--recursive'', Str ''--level=2'',
      Str ''--no-parent'',
      Str ''--page-requisites'',
      Str ''--span-hosts-allow'', Str ''page-requisites,linked-pages'',
      Str ''--timeout'', Str ''30'',
      Str ''--tries'', Str ''2'',
      Str ''--wait'', Str ''0.5'',
      Str ''--random-wait'',
      Str ''--waitretry'', Str ''5'',
      Str ''--warc-file'', ItemInterpolation ''%(item_dir)s/%(warc_file_base)s'',
      Str ''--warc-header'', Str ''operator: Archive Team'',
      Str ''--warc-header'', Str (''examplecity-dld-script-version: '' @ VERSION),
      Str ''--warc-header'', ItemInterpolation ''examplecity-user: %(item_name)s'']"

definition WgetArgs_realize :: "string \<Rightarrow> string option \<Rightarrow> item \<Rightarrow> error + string list" where
  "WgetArgs_realize WPULL_EXE bind_address item =
     (case getitem item ''item_name'' of
        Inl e \<Rightarrow> Inl e
      | Inr domain \<Rightarrow>
          realize
            (wget_args WPULL_EXE @ [Str (''http://'' @ domain)] @
             (case bind_address of None \<Rightarrow> [] | Some b \<Rightarrow> [Str ''--bind-address'', Str b]))
            item)"

text \<open>
  Reading a realised argument list: an option followed by its value, and the values of
  all occurrences of an option.
\<close>

fun has_option :: "string \<Rightarrow> string \<Rightarrow> string list \<Rightarrow> bool" where
  "has_option k v (a # b # rest) = ((a = k \<and> b = v) \<or> has_option k v (b # rest))"
| "has_option k v rest = False"

fun option_values :: "string \<Rightarrow> string list \<Rightarrow> string list" where
  "option_values k (a # b # rest) =
     (if a = k then b # option_values k rest else option_values k (b # rest))"
| "option_values k rest = []"

subsection \<open>WgetDownload\<close>

text \<open>
  Modelled from the spec: the Process Runner (\<open>seesaw.externalprocess.WgetDownload\<close>),
  which the pipeline only configures; its code is in the seesaw library, not in the
  pipeline's source. The spec's contract: run the executable and take its exit code; a
  code among the accepted ones makes the stage succeed; any other code uses up one try
  of the budget \<open>max_tries\<close> and the executable is invoked again from scratch; when the
  budget is exhausted the item fails. The executable is given by the exit code of its
  invocations, numbered from 0; the runner returns the outcome and the number of
  invocations made.
\<close>

datatype outcome = Succeeded | ItemFailed

fun run_process :: "(nat \<Rightarrow> int) \<Rightarrow> int list \<Rightarrow> nat \<Rightarrow> nat \<Rightarrow> outcome \<times> nat" where
  "run_process exe accept_exit_codes 0 n = (ItemFailed, n)"
| "run_process exe accept_exit_codes (Suc budget) n =
     (if exe n \<in> set accept_exit_codes then (Succeeded, Suc n)
      else run_process exe accept_exit_codes budget (Suc n))"

text \<open>
  The stage as the pipeline constructs it:
  \<open>WgetDownload(WgetArgs(), max_tries=2, accept_on_exit_code=[0, 4, 7, 8], ...)\<close>.
\<close>

definition max_tries :: nat where
  "max_tries = 2"

definition accept_on_exit_code :: "int list" where
  "accept_on_exit_code = [0, 4, 7, 8]"

definition WgetDownload :: "(nat \<Rightarrow> int) \<Rightarrow> outcome \<times> nat" where
  "WgetDownload exe = run_process exe accept_on_exit_code max_tries 0"

subsection \<open>Notions used in the statements\<close>

text \<open>
  Two characters that the sanitiser cannot tell apart: equal ones, and any two of the
  colon, the slash and the underscore.
\<close>

definition interchangeable :: "char \<Rightarrow> char \<Rightarrow> bool" where
  "interchangeable a b =
     (a = b \<or> (a \<in> {CHR '':'', CHR ''/'', CHR ''_''} \<and> b \<in> {CHR '':'', CHR ''/'', CHR ''_''}))"



text \<open>
  A broken-down time as \<open>time.localtime()\<close> returns it: the month, day, hour, minute
  and second are in their calendar ranges (the second may be a leap second).
\<close>

definition valid_struct_time :: "struct_time \<Rightarrow> bool" where
  "valid_struct_time t =
     (1 \<le> tm_mon t \<and> tm_mon t \<le> 12 \<and> 1 \<le> tm_mday t \<and> tm_mday t \<le> 31 \<and>
      tm_hour t \<le> 23 \<and> tm_min t \<le> 59 \<and> tm_sec t \<le> 61)"

text \<open>
  The running example: the task and the item name that the pipeline itself configures
  (\<open>PrepareDirectories(warc_prefix="examplecity")\<close> and
  \<open>SetItemKey("item_name", "smaug.fart.website:8080")\<close>), a clock reading, and a file
  system in which an aborted earlier attempt has left the item's directory behind.
\<close>

definition example_task :: prepare_directories where
  "example_task = \<lparr>warc_prefix = ''examplecity''\<rparr>"

definition example_time :: struct_time where
  "example_time =
     \<lparr>tm_year = 2015, tm_mon = 3, tm_mday = 21, tm_hour = 12, tm_min = 0, tm_sec = 7\<rparr>"

definition example_item :: item where
  "example_item = [''item_name'' \<mapsto> ''smaug.fart.website:8080'', ''data_dir'' \<mapsto> ''data'']"

definition stale_fs :: fs where
  "stale_fs =
     Dir (fmupd ''data''
       (Dir (fmupd ''smaug.fart.website_8080''
         (Dir (fmupd ''wpull.log'' (File ''old log'') fmempty)) fmempty)) fmempty)"

text \<open>
  Two attempts on the example item, the second right after the first, on the item and
  the file system that the first has left, with the clock still in the same second;
  and the file system of the first attempt with an uncompressed archive written next
  to the compressed one.
\<close>

definition first_attempt :: "(error + unit) \<times> item \<times> fs" where
  "first_attempt = PrepareDirectories_process example_task example_time example_item stale_fs"

definition second_attempt :: "(error + unit) \<times> item \<times> fs" where
  "second_attempt =
     PrepareDirectories_process example_task example_time
       (fst (snd first_attempt)) (snd (snd first_attempt))"

definition staged_item :: item where
  "staged_item = fst (snd first_attempt)"

definition staged_fs :: fs where
  "staged_fs = snd (snd first_attempt)"

definition uncompressed_fs :: fs where
  "uncompressed_fs =
     Dir (fmupd ''data''
       (Dir (fmupd ''smaug.fart.website_8080''
         (Dir (fmupd ''examplecity-smaug.fart.website_8080-20150321-120007.warc''
                 (File ''WARC/1.0'')
              (fmupd ''examplecity-smaug.fart.website_8080-20150321-120007.warc.gz''
                 (File []) fmempty))) fmempty)) fmempty)"

section \<open>Properties\<close>

subsection \<open>Sanitising\<close>

lemma escape_item_name_map:
  "escape_item_name s = map (\<lambda>c. if c = CHR '':'' \<or> c = CHR ''/'' then CHR ''_'' else c) s"
  by (simp add: escape_item_name_def replace_def)

lemma escape_item_name_length: "length (escape_item_name s) = length s"
  by (simp add: escape_item_name_map)

lemma escape_item_name_id:
  "CHR '':'' \<notin> set s \<Longrightarrow> CHR ''/'' \<notin> set s \<Longrightarrow> escape_item_name s = s"
  by (induction s) (auto simp: escape_item_name_map)

lemma escape_item_name_collide:
  "(escape_item_name n1 = escape_item_name n2) = list_all2 interchangeable n1 n2"
proof (induction n1 arbitrary: n2)
  case Nil
  then show ?case by (simp add: escape_item_name_map)
next
  case (Cons a n1)
  show ?case
  proof (cases n2)
    case Nil
    then show ?thesis by (simp add: escape_item_name_map)
  next
    case (Cons b n2')
    have "(escape_item_name (a # n1) = escape_item_name (b # n2')) =
          (interchangeable a b \<and> escape_item_name n1 = escape_item_name n2')"
      by (auto simp: escape_item_name_map interchangeable_def)
    with Cons.IH Cons show ?thesis by simp
  qed
qed

text \<open>
  C9. For every item name, the escaped name holds no slash and no colon, and the
  escaped name the stager stores in the item is a function of the item name alone:
  whatever the task's prefix, the clock, the file system and the item's other keys are,
  and whether or not the stager later raises, \<open>item['escaped_item_name']\<close> is
  \<open>escape_item_name item_name\<close>.
\<close>

theorem escaped_item_name_clean_and_deterministic:
  "CHR ''/'' \<notin> set (escape_item_name item_name) \<and>
   CHR '':'' \<notin> set (escape_item_name item_name) \<and>
   fst (snd (PrepareDirectories_process self now (item(''item_name'' \<mapsto> item_name)) fs))
     ''escaped_item_name'' = Some (escape_item_name item_name)"
  by (auto simp: escape_item_name_map PrepareDirectories_process_def getitem_def Let_def
      split: sum.splits prod.splits option.splits)

text \<open>
  C8, as stated, fails: \<open>example.org:80\<close> and \<open>example.org/80\<close> are different item
  names with the same escaped name, and the stager gives both items the same
  \<open>item_dir\<close> under one \<open>data_dir\<close>.
\<close>

theorem escaped_item_name_collision:
  "''example.org:80'' \<noteq> ''example.org/80'' \<and>
   escape_item_name ''example.org:80'' = ''example.org_80'' \<and>
   escape_item_name ''example.org/80'' = ''example.org_80'' \<and>
   fst (snd (PrepareDirectories_process \<lparr>warc_prefix = ''examplecity''\<rparr>
     \<lparr>tm_year = 2015, tm_mon = 3, tm_mday = 21, tm_hour = 12, tm_min = 0, tm_sec = 7\<rparr>
     [''item_name'' \<mapsto> ''example.org:80'', ''data_dir'' \<mapsto> ''data''] (Dir fmempty)))
     ''item_dir'' = Some ''data/example.org_80'' \<and>
   fst (snd (PrepareDirectories_process \<lparr>warc_prefix = ''examplecity''\<rparr>
     \<lparr>tm_year = 2015, tm_mon = 3, tm_mday = 21, tm_hour = 12, tm_min = 0, tm_sec = 7\<rparr>
     [''item_name'' \<mapsto> ''example.org/80'', ''data_dir'' \<mapsto> ''data''] (Dir fmempty)))
     ''item_dir'' = Some ''data/example.org_80''"
  by (simp add: PrepareDirectories_process_def getitem_def escape_item_name_def replace_def
      join_slash_def isdir_def components_def makedirs_def dash3_def strftime_def pad2_def
      digit_def interpolate_def open_w_close_def Let_def decimal.simps)

text \<open>
  C8, amended. Two item names have the same escaped name, and so the same \<open>item_dir\<close>
  under one \<open>data_dir\<close>, exactly when they have the same length and, position by
  position, carry the same character or two of the characters colon, slash and
  underscore. All other pairs of different names are kept apart.
\<close>

theorem escaped_item_name_equal_iff:
  "(escape_item_name n1 = escape_item_name n2) = list_all2 interchangeable n1 n2 \<and>
   (join_slash data_dir (escape_item_name n1) = join_slash data_dir (escape_item_name n2)) =
     list_all2 interchangeable n1 n2"
  by (simp add: join_slash_def escape_item_name_collide)

subsection \<open>The stats function\<close>

text \<open>
  C10. The stats function ignores its item: for any two items it returns the same
  dictionary, whose keys are exactly \<open>pipeline_hash\<close>, \<open>script_hash\<close> and
  \<open>python_version\<close>, bound to the module's two digests and the interpreter's version
  string. When the module has loaded, the digests are those of the contents of
  \<open>pipeline.py\<close> and \<open>examplecity.py\<close> in the working directory at that moment.
\<close>

theorem stats_id_function_constant:
  "stats_id_function g item1 = stats_id_function g item2 \<and>
   dom (stats_id_function g item1) = {''pipeline_hash'', ''script_hash'', ''python_version''} \<and>
   stats_id_function g item1 ''pipeline_hash'' = Some (PIPELINE_SHA1 g) \<and>
   stats_id_function g item1 ''script_hash'' = Some (SCRIPT_SHA1 g) \<and>
   stats_id_function g item1 ''python_version'' = Some (sys_version g) \<and>
   (\<forall>sha1 fs CWD version. load_hashes sha1 fs CWD version = Inr g \<longrightarrow>
      (\<exists>pipeline script.
         lookup fs (components (CWD @ ''/pipeline.py'')) = Some (File pipeline) \<and>
         lookup fs (components (CWD @ ''/examplecity.py'')) = Some (File script) \<and>
         stats_id_function g item1 =
           [''pipeline_hash'' \<mapsto> sha1 pipeline, ''script_hash'' \<mapsto> sha1 script,
            ''python_version'' \<mapsto> version]))"
proof -
  have "\<exists>pipeline script.
         lookup fs (components (CWD @ ''/pipeline.py'')) = Some (File pipeline) \<and>
         lookup fs (components (CWD @ ''/examplecity.py'')) = Some (File script) \<and>
         stats_id_function g item1 =
           [''pipeline_hash'' \<mapsto> sha1 pipeline, ''script_hash'' \<mapsto> sha1 script,
            ''python_version'' \<mapsto> version]"
    if "load_hashes sha1 fs CWD version = Inr g" for sha1 fs CWD version
    using that
    by (auto simp: load_hashes_def get_hash_def join_slash_def stats_id_function_def
        split: sum.splits option.splits node.splits if_splits)
  then show ?thesis
    by (auto simp: stats_id_function_def)
qed

theorem stats_id_function_constant_witness:
  "load_hashes (\<lambda>bytes. ''sha1 of '' @ bytes)
     (Dir (fmupd ''project''
        (Dir (fmupd ''pipeline.py'' (File ''pipeline source'')
             (fmupd ''examplecity.py'' (File ''script source'') fmempty))) fmempty))
     ''/project'' ''3.4.3'' =
     Inr \<lparr>PIPELINE_SHA1 = ''sha1 of pipeline source'', SCRIPT_SHA1 = ''sha1 of script source'',
          sys_version = ''3.4.3''\<rparr> \<and>
   stats_id_function
     \<lparr>PIPELINE_SHA1 = ''sha1 of pipeline source'', SCRIPT_SHA1 = ''sha1 of script source'',
      sys_version = ''3.4.3''\<rparr> staged_item =
     [''pipeline_hash'' \<mapsto> ''sha1 of pipeline source'',
      ''script_hash'' \<mapsto> ''sha1 of script source'', ''python_version'' \<mapsto> ''3.4.3'']"
proof -
  let ?fs = "Dir (fmupd ''project''
        (Dir (fmupd ''pipeline.py'' (File ''pipeline source'')
             (fmupd ''examplecity.py'' (File ''script source'') fmempty))) fmempty)"
  let ?g = "\<lparr>PIPELINE_SHA1 = ''sha1 of pipeline source'', SCRIPT_SHA1 = ''sha1 of script source'',
          sys_version = ''3.4.3''\<rparr>"
  have l: "load_hashes (\<lambda>bytes. ''sha1 of '' @ bytes) ?fs ''/project'' ''3.4.3'' = Inr ?g"
    by (simp add: load_hashes_def get_hash_def join_slash_def components_def)
  have "\<forall>sha1 fs CWD version. load_hashes sha1 fs CWD version = Inr ?g \<longrightarrow>
      (\<exists>pipeline script.
         lookup fs (components (CWD @ ''/pipeline.py'')) = Some (File pipeline) \<and>
         lookup fs (components (CWD @ ''/examplecity.py'')) = Some (File script) \<and>
         stats_id_function ?g staged_item =
           [''pipeline_hash'' \<mapsto> sha1 pipeline, ''script_hash'' \<mapsto> sha1 script,
            ''python_version'' \<mapsto> version])"
    using stats_id_function_constant [of ?g staged_item staged_item] by (elim conjE)
  from this [rule_format, OF l]
  obtain pipeline script where
    f: "lookup ?fs (components (''/project'' @ ''/pipeline.py'')) = Some (File pipeline)"
       "lookup ?fs (components (''/project'' @ ''/examplecity.py'')) = Some (File script)"
       "stats_id_function ?g staged_item =
          [''pipeline_hash'' \<mapsto> (\<lambda>bytes. ''sha1 of '' @ bytes) pipeline,
           ''script_hash'' \<mapsto> (\<lambda>bytes. ''sha1 of '' @ bytes) script,
           ''python_version'' \<mapsto> ''3.4.3'']"
    by (elim exE conjE)
  from f(1) have "pipeline = ''pipeline source''" by (simp add: components_def)
  moreover from f(2) have "script = ''script source''" by (simp add: components_def)
  ultimately show ?thesis using l f(3) by simp
qed

subsection \<open>CheckIP\<close>

lemma add_resolved_all:
  "\<forall>h\<in>set hs. g h \<noteq> None \<Longrightarrow>
   add_resolved g hs S = (Inr (S \<union> (\<lambda>h. the (g h)) ` set hs), hs)"
  by (induction hs arbitrary: S) auto

lemma card_resolved_le: "card ((\<lambda>h. the (g h)) ` set hostnames) \<le> 6"
proof -
  have "card ((\<lambda>h. the (g h)) ` set hostnames) \<le> card (set hostnames)"
    by (rule card_image_le) simp
  also have "\<dots> \<le> length hostnames" by (rule card_length)
  also have "\<dots> = 6" by (simp add: hostnames_def)
  finally show ?thesis .
qed









text \<open>
  C1. When the guard performs its check (the counter is not positive) and the resolver
  answers all six hostnames, each hostname is asked once, and \<open>process\<close> raises the
  firewall exception exactly when the answers are fewer than six different addresses;
  with six different addresses it returns normally. No other outcome is possible.
\<close>

theorem CheckIP_raises_iff_fewer_than_six:
  assumes "counter self \<le> 0" and "\<forall>h\<in>set hostnames. gethostbyname h \<noteq> None"
  shows "(case CheckIP_process gethostbyname self of (out, self', asked) \<Rightarrow>
           asked = hostnames \<and> length asked = 6 \<and>
           (out = Inl (Exception firewall_message)) =
             (card ((\<lambda>h. the (gethostbyname h)) ` set hostnames) < 6) \<and>
           (out = Inr ()) = (card ((\<lambda>h. the (gethostbyname h)) ` set hostnames) = 6) \<and>
           (out = Inl (Exception firewall_message) \<or> out = Inr ()))"
proof -
  have a: "add_resolved gethostbyname hostnames {} =
        (Inr ((\<lambda>h. the (gethostbyname h)) ` set hostnames), hostnames)"
    using add_resolved_all [OF assms(2), of "{}"] by simp
  have l: "length hostnames = 6" by (simp add: hostnames_def)
  show ?thesis
    using assms(1) card_resolved_le [of gethostbyname]
    by (auto simp: CheckIP_process_def a l)
qed

theorem CheckIP_raises_iff_fewer_than_six_witness:
  "counter CheckIP_init \<le> 0 \<and>
   list_all (\<lambda>h. map_of (zip hostnames [''10.0.0.1'', ''10.0.0.2'', ''10.0.0.3'', ''10.0.0.4'', ''10.0.0.5'', ''10.0.0.6'']) h \<noteq> None) hostnames \<and>
   card ((\<lambda>h. the (map_of (zip hostnames [''10.0.0.1'', ''10.0.0.2'', ''10.0.0.3'', ''10.0.0.4'', ''10.0.0.5'', ''10.0.0.6'']) h)) ` set hostnames) = 6 \<and>
   fst (CheckIP_process (map_of (zip hostnames [''10.0.0.1'', ''10.0.0.2'', ''10.0.0.3'', ''10.0.0.4'', ''10.0.0.5'', ''10.0.0.6''])) CheckIP_init) = Inr () \<and>
   list_all (\<lambda>h. (\<lambda>h. Some ''192.168.0.1'') h \<noteq> None) hostnames \<and>
   card ((\<lambda>h. the ((\<lambda>h. Some ''192.168.0.1'') h)) ` set hostnames) = 1 \<and>
   fst (CheckIP_process (\<lambda>h. Some ''192.168.0.1'') CheckIP_init) = Inl (Exception firewall_message)"
proof -
  let ?g = "map_of (zip hostnames [''10.0.0.1'', ''10.0.0.2'', ''10.0.0.3'', ''10.0.0.4'', ''10.0.0.5'', ''10.0.0.6''])"
  let ?p = "(\<lambda>h. Some ''192.168.0.1'') :: resolver"
  have c: "counter CheckIP_init \<le> 0" by (simp add: CheckIP_init_def)
  have g: "\<forall>h\<in>set hostnames. ?g h \<noteq> None" by (simp add: hostnames_def)
  have p: "\<forall>h\<in>set hostnames. ?p h \<noteq> None" by simp
  have cg: "card ((\<lambda>h. the (?g h)) ` set hostnames) = 6" by (simp add: hostnames_def)
  have cp: "card ((\<lambda>h. the (?p h)) ` set hostnames) = 1" by (simp add: hostnames_def)
  have 1: "fst (CheckIP_process ?g CheckIP_init) = Inr ()"
    using CheckIP_raises_iff_fewer_than_six [OF c g] cg by (auto split: prod.splits)
  have 2: "fst (CheckIP_process ?p CheckIP_init) = Inl (Exception firewall_message)"
    using CheckIP_raises_iff_fewer_than_six [OF c p] cp by (auto split: prod.splits)
  from c g p cg cp 1 2 show ?thesis by (simp add: list_all_iff)
qed




subsection \<open>Paths and the file system\<close>

lemma split_path_append:
  "split_path cur (a @ CHR ''/'' # b) = split_path cur a @ split_path [] b"
  by (induction a arbitrary: cur) auto

lemma components_append:
  "components (a @ CHR ''/'' # b) = components a @ components b"
  by (simp add: components_def split_path_append)

lemma split_path_no_slash:
  "CHR ''/'' \<notin> set s \<Longrightarrow> split_path cur s = [cur @ s]"
  by (induction s arbitrary: cur) auto

lemma components_single:
  "CHR ''/'' \<notin> set s \<Longrightarrow> s \<noteq> [] \<Longrightarrow> components s = [s]"
  by (simp add: components_def split_path_no_slash)

lemma lookup_fresh_dirs: "lookup (fresh_dirs cs) cs = Some (Dir fmempty)"
  by (induction cs) auto

lemma makedirs_at_fresh:
  "makedirs_at cs n = Inr n' \<Longrightarrow> lookup n' cs = Some (Dir fmempty)"
  by (induction cs n arbitrary: n' rule: makedirs_at.induct)
     (auto simp: lookup_fresh_dirs split: option.splits sum.splits)

lemma create_at_in_empty_dir:
  "lookup n cs = Some (Dir fmempty) \<Longrightarrow> create_at (cs @ ds) n = Inr n' \<Longrightarrow>
   \<exists>e. ds = [e] \<and> lookup n' cs = Some (Dir (fmupd e (File []) fmempty)) \<and>
        lookup n' (cs @ ds) = Some (File [])"
proof (induction cs arbitrary: n n')
  case Nil
  then show ?case
    by (cases ds) (auto split: if_splits option.splits node.splits)
next
  case (Cons c cs)
  from Cons.prems(1) obtain m n1 where n: "n = Dir m" and m: "fmlookup m c = Some n1"
    and l: "lookup n1 cs = Some (Dir fmempty)"
    by (cases n) (auto split: option.splits)
  show ?case
  proof (cases "cs @ ds = []")
    case True
    with Cons.prems n m l show ?thesis by auto
  next
    case False
    with Cons.prems(2) n m obtain n1' where c: "create_at (cs @ ds) n1 = Inr n1'"
      and n': "n' = Dir (fmupd c n1' m)"
      by (auto split: sum.splits)
    from Cons.IH [OF l c] n' show ?thesis by auto
  qed
qed

lemma digit_in: "digit n \<in> set ''0123456789''"
  unfolding digit_def by (rule nth_mem) simp

lemma digit_not_slash: "digit n \<noteq> CHR ''/''"
  using digit_in [of n] by auto

lemma decimal_no_slash: "CHR ''/'' \<notin> set (decimal n)"
proof (induction n rule: decimal.induct)
  case (1 n)
  show ?case
  proof (cases "n < 10")
    case True
    then show ?thesis using digit_not_slash [of n] by (subst decimal.simps) auto
  next
    case False
    then show ?thesis using 1 digit_not_slash [of n] by (subst decimal.simps) auto
  qed
qed

lemma slash_not_digit: "CHR ''/'' \<noteq> digit n"
  using digit_in [of n] by auto

lemma strftime_no_slash: "CHR ''/'' \<notin> set (strftime t)"
  by (simp add: strftime_def pad2_def decimal_no_slash slash_not_digit)

lemma digit_inj: "digit a = digit b \<Longrightarrow> a mod 10 = b mod 10"
proof -
  assume e: "digit a = digit b"
  have d: "distinct ''0123456789''" by simp
  have "a mod 10 < length ''0123456789''" "b mod 10 < length ''0123456789''" by simp_all
  with d e show ?thesis unfolding digit_def by (simp only: nth_eq_iff_index_eq)
qed

lemma decimal_nonempty: "decimal n \<noteq> []"
  by (subst decimal.simps) simp

lemma decimal_inj: "decimal a = decimal b \<Longrightarrow> a = b"
proof (induction a arbitrary: b rule: decimal.induct)
  case (1 a)
  show ?case
  proof (cases "a < 10")
    case small: True
    show ?thesis
    proof (cases "b < 10")
      case True
      from "1.prems" small True have "digit a = digit b"
        by (subst (asm) decimal.simps, subst (asm) (2) decimal.simps) simp
      from digit_inj [OF this] small True show ?thesis by simp
    next
      case False
      from "1.prems" small False have "[digit a] = decimal (b div 10) @ [digit b]"
        by (subst (asm) decimal.simps, subst (asm) (2) decimal.simps) simp
      with decimal_nonempty [of "b div 10"] show ?thesis by simp
    qed
  next
    case big: False
    show ?thesis
    proof (cases "b < 10")
      case True
      from "1.prems" big True have "decimal (a div 10) @ [digit a] = [digit b]"
        by (subst (asm) decimal.simps, subst (asm) (2) decimal.simps) simp
      with decimal_nonempty [of "a div 10"] show ?thesis by simp
    next
      case False
      from "1.prems" big False have "decimal (a div 10) @ [digit a] = decimal (b div 10) @ [digit b]"
        by (subst (asm) decimal.simps, subst (asm) (2) decimal.simps) simp
      then have e: "decimal (a div 10) = decimal (b div 10)" and d: "digit a = digit b" by simp_all
      from "1.IH" [OF big e] have "a div 10 = b div 10" .
      moreover from digit_inj [OF d] have "a mod 10 = b mod 10" .
      ultimately show ?thesis by (metis div_mult_mod_eq)
    qed
  qed
qed

lemma pad2_inj: "a < 100 \<Longrightarrow> b < 100 \<Longrightarrow> pad2 a = pad2 b \<Longrightarrow> a = b"
proof -
  assume a: "a < 100" and b: "b < 100" and e: "pad2 a = pad2 b"
  from e have "digit (a div 10) = digit (b div 10)" and "digit a = digit b"
    by (simp_all add: pad2_def)
  then have "(a div 10) mod 10 = (b div 10) mod 10" and m: "a mod 10 = b mod 10"
    by (auto dest: digit_inj)
  with a b have "a div 10 = b div 10" by simp
  with m show ?thesis by (metis div_mult_mod_eq)
qed

lemma strftime_inj:
  assumes "valid_struct_time t1" and "valid_struct_time t2" and e: "strftime t1 = strftime t2"
  shows "t1 = t2"
proof -
  let ?r = "\<lambda>t. pad2 (tm_mon t) @ pad2 (tm_mday t) @ ''-'' @ pad2 (tm_hour t) @ pad2 (tm_min t) @ pad2 (tm_sec t)"
  have l: "length (?r t1) = length (?r t2)" by (simp add: pad2_def)
  from e have e': "decimal (tm_year t1) @ ?r t1 = decimal (tm_year t2) @ ?r t2"
    by (simp add: strftime_def)
  have "decimal (tm_year t1) = decimal (tm_year t2) \<and> ?r t1 = ?r t2"
    using append_eq_append_conv [of "decimal (tm_year t1)" "decimal (tm_year t2)" "?r t1" "?r t2"] l e'
    by blast
  then have y: "decimal (tm_year t1) = decimal (tm_year t2)" and r: "?r t1 = ?r t2"
    by simp_all
  from r have p: "pad2 (tm_mon t1) = pad2 (tm_mon t2)" "pad2 (tm_mday t1) = pad2 (tm_mday t2)"
    "pad2 (tm_hour t1) = pad2 (tm_hour t2)" "pad2 (tm_min t1) = pad2 (tm_min t2)"
    "pad2 (tm_sec t1) = pad2 (tm_sec t2)"
    by (simp_all add: pad2_def)
  from assms(1,2) have b: "tm_mon t1 < 100" "tm_mon t2 < 100" "tm_mday t1 < 100" "tm_mday t2 < 100"
    "tm_hour t1 < 100" "tm_hour t2 < 100" "tm_min t1 < 100" "tm_min t2 < 100"
    "tm_sec t1 < 100" "tm_sec t2 < 100"
    by (simp_all add: valid_struct_time_def)
  from y have "tm_year t1 = tm_year t2" by (rule decimal_inj)
  moreover from b p have "tm_mon t1 = tm_mon t2" "tm_mday t1 = tm_mday t2" "tm_hour t1 = tm_hour t2"
    "tm_min t1 = tm_min t2" "tm_sec t1 = tm_sec t2"
    by (auto intro: pad2_inj)
  ultimately show ?thesis by simp
qed

lemma escape_no_slash: "CHR ''/'' \<notin> set (escape_item_name s)"
  by (auto simp: escape_item_name_map)

lemma interp_gz:
  "item ''item_dir'' = Some d \<Longrightarrow> item ''warc_file_base'' = Some b \<Longrightarrow>
   interpolate ''%(item_dir)s/%(warc_file_base)s.warc.gz'' item = Inr (d @ ''/'' @ b @ ''.warc.gz'')"
  by (simp add: interpolate_def)

lemma lookup_append:
  "lookup n (cs @ ds) = (case lookup n cs of None \<Rightarrow> None | Some n' \<Rightarrow> lookup n' ds)"
proof (induction cs arbitrary: n)
  case Nil
  then show ?case by simp
next
  case (Cons c cs)
  then show ?case by (cases n) (auto split: option.splits)
qed

lemma lookup_remove_self: "cs \<noteq> [] \<Longrightarrow> lookup (remove cs n) cs = None"
  by (induction cs n rule: remove.induct) (auto split: option.splits)

lemma lookup_remove_apart:
  "\<not> prefix cs ds \<Longrightarrow> \<not> prefix ds cs \<Longrightarrow> lookup (remove cs n) ds = lookup n ds"
proof (induction cs n arbitrary: ds rule: remove.induct)
  case (1 n)
  then show ?case by simp
next
  case (2 c cs s)
  then show ?case by (cases ds) auto
next
  case (3 c cs m)
  then show ?case by (cases ds) (auto split: option.splits)
qed

lemma lookup_remove_dir:
  "lookup n p = Some (Dir m) \<Longrightarrow> \<not> prefix s p \<Longrightarrow> \<exists>m'. lookup (remove s n) p = Some (Dir m')"
proof (induction s n arbitrary: p m rule: remove.induct)
  case (1 n)
  then show ?case by simp
next
  case (2 c cs s)
  then show ?case by (cases p) auto
next
  case (3 c cs m0)
  then show ?case by (cases p) (auto split: option.splits if_splits)
qed

lemma lookup_put_self:
  "ds \<noteq> [] \<Longrightarrow> lookup n (butlast ds) = Some (Dir m) \<Longrightarrow> lookup (put ds new n) ds = Some new"
proof (induction ds new n arbitrary: m rule: put.induct)
  case (1 new n)
  then show ?case by simp
next
  case (2 c cs new s)
  then show ?case by (auto split: if_splits)
next
  case (3 c cs new m0)
  then show ?case by (auto split: option.splits if_splits)
qed

lemma lookup_below_file:
  "lookup n s = Some (File c) \<Longrightarrow> lookup n (s @ r) = (if r = [] then Some (File c) else None)"
  by (cases r) (simp_all add: lookup_append)

lemma rename_success:
  assumes ok: "rename fs src dst = (Inr (), fs1)" and ne: "components src \<noteq> components dst"
  shows "\<exists>n. lookup fs (components src) = Some n \<and> lookup fs1 (components dst) = Some n \<and>
             fs1 = put (components dst) n (remove (components src) fs)"
proof -
  let ?s = "components src" and ?d = "components dst"
  from ok obtain n where n: "lookup fs ?s = Some n"
    by (auto simp: rename_def Let_def split: if_splits option.splits)
  from ok n have d: "?d \<noteq> []"
    by (auto simp: rename_def Let_def split: if_splits)
  from ok n d obtain pm where pm: "lookup fs (butlast ?d) = Some (Dir pm)"
    by (auto simp: rename_def Let_def split: if_splits option.splits node.splits)
  from ok n d pm ne have fs1: "fs1 = put ?d n (remove ?s fs)"
    by (auto simp: rename_def Let_def split: if_splits option.splits node.splits)
  have np: "\<not> prefix ?s (butlast ?d)"
  proof
    assume p: "prefix ?s (butlast ?d)"
    show False
    proof (cases n)
      case (File c)
      from p obtain r where "butlast ?d = ?s @ r" by (auto simp: prefix_def)
      with lookup_below_file [of fs ?s c r] n File pm show False
        by (auto split: if_splits)
    next
      case (Dir m)
      from p have "prefix ?s ?d"
        using prefix_order.trans prefixeq_butlast by blast
      with ok n d pm ne Dir show False
        by (auto simp: rename_def Let_def split: if_splits option.splits node.splits)
    qed
  qed
  from lookup_remove_dir [OF pm np] obtain m' where
    "lookup (remove ?s fs) (butlast ?d) = Some (Dir m')" by blast
  with d have "lookup (put ?d n (remove ?s fs)) ?d = Some n"
    by (rule lookup_put_self)
  with n fs1 show ?thesis by simp
qed

lemma rmtree_success:
  "rmtree fs p = (Inr (), fs') \<Longrightarrow> components p \<noteq> [] \<and> fs' = remove (components p) fs"
  by (auto simp: rmtree_def split: if_splits option.splits node.splits)

lemma interp_warc:
  "item ''item_dir'' = Some d \<Longrightarrow> item ''warc_file_base'' = Some b \<Longrightarrow>
   interpolate ''%(item_dir)s/%(warc_file_base)s.warc'' item = Inr (d @ ''/'' @ b @ ''.warc'')"
  by (simp add: interpolate_def)

lemma interp_dst:
  "item ''data_dir'' = Some d \<Longrightarrow> item ''warc_file_base'' = Some b \<Longrightarrow>
   interpolate ''%(data_dir)s/%(warc_file_base)s.warc.gz'' item = Inr (d @ ''/'' @ b @ ''.warc.gz'')"
  by (simp add: interpolate_def)

lemma interp_dir:
  "item ''item_dir'' = Some d \<Longrightarrow> interpolate ''%(item_dir)s'' item = Inr d"
  by (simp add: interpolate_def)

lemma MoveFiles_raises:
  assumes "item ''item_dir'' = Some item_dir" and "item ''warc_file_base'' = Some base"
    and "exists_path fs (item_dir @ ''/'' @ base @ ''.warc'')"
  shows "MoveFiles_process item fs = (Inl (Exception zlib_message), fs)"
  using assms by (simp add: MoveFiles_process_def interp_warc)

lemma MoveFiles_moves:
  assumes "item ''item_dir'' = Some item_dir" and "item ''warc_file_base'' = Some base"
    and "item ''data_dir'' = Some data_dir"
    and "\<not> exists_path fs (item_dir @ ''/'' @ base @ ''.warc'')"
  shows "MoveFiles_process item fs =
     (case rename fs (item_dir @ ''/'' @ base @ ''.warc.gz'') (data_dir @ ''/'' @ base @ ''.warc.gz'') of
        (Inl e, fs1) \<Rightarrow> (Inl e, fs1)
      | (Inr u, fs1) \<Rightarrow> rmtree fs1 item_dir)"
  using assms
  by (simp add: MoveFiles_process_def interp_warc interp_gz interp_dst interp_dir
      split: prod.splits sum.splits)

lemma MoveFiles_success:
  assumes i: "item ''item_dir'' = Some item_dir" "item ''warc_file_base'' = Some base"
    "item ''data_dir'' = Some data_dir"
    and ok: "MoveFiles_process item fs = (Inr (), fs')"
    and ap: "\<not> prefix (components item_dir) (components (data_dir @ ''/'' @ base @ ''.warc.gz''))"
      "\<not> prefix (components (data_dir @ ''/'' @ base @ ''.warc.gz'')) (components item_dir)"
  shows "\<not> exists_path fs (item_dir @ ''/'' @ base @ ''.warc'') \<and>
     lookup fs (components (item_dir @ ''/'' @ base @ ''.warc.gz'')) \<noteq> None \<and>
     lookup fs' (components (data_dir @ ''/'' @ base @ ''.warc.gz'')) =
       lookup fs (components (item_dir @ ''/'' @ base @ ''.warc.gz'')) \<and>
     lookup fs' (components item_dir) = None"
proof -
  let ?src = "item_dir @ ''/'' @ base @ ''.warc.gz''" and ?dst = "data_dir @ ''/'' @ base @ ''.warc.gz''"
  have ne: "\<not> exists_path fs (item_dir @ ''/'' @ base @ ''.warc'')"
  proof
    assume "exists_path fs (item_dir @ ''/'' @ base @ ''.warc'')"
    from MoveFiles_raises [OF i(1) i(2) this] ok show False by simp
  qed
  from MoveFiles_moves [OF i ne] ok obtain fs1 where
    r: "rename fs ?src ?dst = (Inr (), fs1)" and t: "rmtree fs1 item_dir = (Inr (), fs')"
    by (auto split: prod.splits sum.splits)
  have "components ?src = components item_dir @ components (base @ ''.warc.gz'')"
    using components_append [of item_dir "base @ ''.warc.gz''"] by simp
  with ap(1) have sd: "components ?src \<noteq> components ?dst"
    by (metis prefixI)
  from rename_success [OF r sd] obtain n where
    n: "lookup fs (components ?src) = Some n" "lookup fs1 (components ?dst) = Some n"
    by blast
  from rmtree_success [OF t] have
    t': "components item_dir \<noteq> []" "fs' = remove (components item_dir) fs1"
    by simp_all
  have "lookup fs' (components ?dst) = lookup fs1 (components ?dst)"
    unfolding t'(2) using ap by (rule lookup_remove_apart)
  moreover have "lookup fs' (components item_dir) = None"
    unfolding t'(2) using t'(1) by (rule lookup_remove_self)
  ultimately show ?thesis using ne n by simp
qed

subsection \<open>PrepareDirectories\<close>

lemma stager_success:
  assumes "PrepareDirectories_process self now item fs = (Inr (), item', fs')"
  shows "\<exists>item_name data_dir e.
     item ''item_name'' = Some item_name \<and> item ''data_dir'' = Some data_dir \<and>
     item' = item(''escaped_item_name'' \<mapsto> escape_item_name item_name,
                  ''item_dir'' \<mapsto> data_dir @ ''/'' @ escape_item_name item_name,
                  ''warc_file_base'' \<mapsto> warc_prefix self @ ''-'' @ escape_item_name item_name @ ''-'' @ strftime now) \<and>
     components ((warc_prefix self @ ''-'' @ escape_item_name item_name @ ''-'' @ strftime now) @ ''.warc.gz'') = [e] \<and>
     lookup fs' (components (data_dir @ ''/'' @ escape_item_name item_name)) =
       Some (Dir (fmupd e (File []) fmempty)) \<and>
     lookup fs' (components (data_dir @ ''/'' @ escape_item_name item_name @ ''/'' @
        (warc_prefix self @ ''-'' @ escape_item_name item_name @ ''-'' @ strftime now) @ ''.warc.gz'')) = Some (File [])"
proof -
  from assms obtain item_name where n: "item ''item_name'' = Some item_name"
    by (auto simp: PrepareDirectories_process_def getitem_def split: option.splits)
  from assms n obtain data_dir where d: "item ''data_dir'' = Some data_dir"
    by (auto simp: PrepareDirectories_process_def getitem_def Let_def split: option.splits)
  let ?esc = "escape_item_name item_name"
  let ?dir = "data_dir @ ''/'' @ ?esc"
  let ?base = "warc_prefix self @ ''-'' @ ?esc @ ''-'' @ strftime now"
  let ?item3 = "item(''escaped_item_name'' \<mapsto> ?esc, ''item_dir'' \<mapsto> ?dir, ''warc_file_base'' \<mapsto> ?base)"
  have i: "interpolate ''%(item_dir)s/%(warc_file_base)s.warc.gz'' ?item3 = Inr (?dir @ ''/'' @ ?base @ ''.warc.gz'')"
    by (rule interp_gz) simp_all
  from assms n d i obtain fs1 fs2 where
    mk: "makedirs fs1 ?dir = (Inr (), fs2)" and
    op: "open_w_close fs2 (?dir @ ''/'' @ ?base @ ''.warc.gz'') = (Inr (), fs')" and
    it: "item' = ?item3"
    by (auto simp: PrepareDirectories_process_def getitem_def Let_def join_slash_def dash3_def
        split: prod.splits sum.splits)
  from mk have "makedirs_at (components ?dir) fs1 = Inr fs2"
    by (auto simp: makedirs_def split: sum.splits if_splits)
  then have l2: "lookup fs2 (components ?dir) = Some (Dir fmempty)"
    by (rule makedirs_at_fresh)
  from op have "create_at (components (?dir @ ''/'' @ ?base @ ''.warc.gz'')) fs2 = Inr fs'"
    by (auto simp: open_w_close_def split: sum.splits if_splits)
  then have "create_at (components ?dir @ components (?base @ ''.warc.gz'')) fs2 = Inr fs'"
    using components_append [of ?dir "?base @ ''.warc.gz''"] by simp
  from create_at_in_empty_dir [OF l2 this] obtain e where
    e: "components (?base @ ''.warc.gz'') = [e]" and
    l3: "lookup fs' (components ?dir) = Some (Dir (fmupd e (File []) fmempty))" and
    l4: "lookup fs' (components ?dir @ components (?base @ ''.warc.gz'')) = Some (File [])"
    by blast
  from l4 have l5: "lookup fs' (components (?dir @ ''/'' @ ?base @ ''.warc.gz'')) = Some (File [])"
    using components_append [of ?dir "?base @ ''.warc.gz''"] by simp
  show ?thesis
    apply (rule exI [of _ item_name])
    apply (rule exI [of _ data_dir])
    apply (rule exI [of _ e])
    using n d it e l3 l5 by simp
qed

lemma first_attempt_result:
  "first_attempt =
     (Inr (),
      [''item_name'' \<mapsto> ''smaug.fart.website:8080'', ''data_dir'' \<mapsto> ''data'',
       ''escaped_item_name'' \<mapsto> ''smaug.fart.website_8080'',
       ''item_dir'' \<mapsto> ''data/smaug.fart.website_8080'',
       ''warc_file_base'' \<mapsto> ''examplecity-smaug.fart.website_8080-20150321-120007''],
      Dir (fmupd ''data''
        (Dir (fmupd ''smaug.fart.website_8080''
          (Dir (fmupd ''examplecity-smaug.fart.website_8080-20150321-120007.warc.gz'' (File []) fmempty))
          fmempty)) fmempty))"
  by (simp add: first_attempt_def PrepareDirectories_process_def example_task_def example_time_def
      example_item_def stale_fs_def getitem_def escape_item_name_def replace_def
      join_slash_def isdir_def rmtree_def components_def makedirs_def dash3_def strftime_def pad2_def
      digit_def interpolate_def open_w_close_def Let_def decimal.simps fmdrop_fmupd)

lemma second_attempt_result:
  "second_attempt =
     (Inr (),
      [''item_name'' \<mapsto> ''smaug.fart.website:8080'', ''data_dir'' \<mapsto> ''data'',
       ''escaped_item_name'' \<mapsto> ''smaug.fart.website_8080'',
       ''item_dir'' \<mapsto> ''data/smaug.fart.website_8080'',
       ''warc_file_base'' \<mapsto> ''examplecity-smaug.fart.website_8080-20150321-120007''],
      Dir (fmupd ''data''
        (Dir (fmupd ''smaug.fart.website_8080''
          (Dir (fmupd ''examplecity-smaug.fart.website_8080-20150321-120007.warc.gz'' (File []) fmempty))
          fmempty)) fmempty))"
  by (simp add: second_attempt_def first_attempt_result PrepareDirectories_process_def example_task_def example_time_def
      getitem_def escape_item_name_def replace_def
      join_slash_def isdir_def rmtree_def components_def makedirs_def dash3_def strftime_def pad2_def
      digit_def interpolate_def open_w_close_def Let_def decimal.simps fmdrop_fmupd)

text \<open>
  C5. Whenever the stager returns normally, \<open>item_dir\<close> is
  \<open>data_dir/escaped_item_name\<close>, that path is a directory of the resulting file system,
  and the directory holds exactly one entry: an empty file, which is the file that the
  path \<open>item_dir/warc_file_base.warc.gz\<close> names (and whose name is
  \<open>warc_file_base.warc.gz\<close> when the task's prefix has no slash). Every other name in
  the directory is absent, so nothing that was at that path before survives.
\<close>

theorem PrepareDirectories_leaves_fresh_item_dir:
  assumes "PrepareDirectories_process self now item fs = (Inr (), item', fs')"
  shows "\<exists>item_name data_dir item_dir warc_file_base e.
     item ''item_name'' = Some item_name \<and> item ''data_dir'' = Some data_dir \<and>
     item' ''escaped_item_name'' = Some (escape_item_name item_name) \<and>
     item' ''item_dir'' = Some item_dir \<and>
     item_dir = data_dir @ ''/'' @ escape_item_name item_name \<and>
     item' ''warc_file_base'' = Some warc_file_base \<and>
     warc_file_base = warc_prefix self @ ''-'' @ escape_item_name item_name @ ''-'' @ strftime now \<and>
     isdir fs' item_dir \<and>
     lookup fs' (components item_dir) = Some (Dir (fmupd e (File []) fmempty)) \<and>
     components (warc_file_base @ ''.warc.gz'') = [e] \<and>
     lookup fs' (components (item_dir @ ''/'' @ warc_file_base @ ''.warc.gz'')) = Some (File []) \<and>
     (\<forall>x. x \<noteq> e \<longrightarrow> lookup fs' (components item_dir @ [x]) = None) \<and>
     (CHR ''/'' \<notin> set (warc_prefix self) \<longrightarrow> e = warc_file_base @ ''.warc.gz'')"
proof -
  from stager_success [OF assms] obtain item_name data_dir e where
    n: "item ''item_name'' = Some item_name" and d: "item ''data_dir'' = Some data_dir" and
    it: "item' = item(''escaped_item_name'' \<mapsto> escape_item_name item_name,
                  ''item_dir'' \<mapsto> data_dir @ ''/'' @ escape_item_name item_name,
                  ''warc_file_base'' \<mapsto> warc_prefix self @ ''-'' @ escape_item_name item_name @ ''-'' @ strftime now)" and
    e: "components ((warc_prefix self @ ''-'' @ escape_item_name item_name @ ''-'' @ strftime now) @ ''.warc.gz'') = [e]" and
    l: "lookup fs' (components (data_dir @ ''/'' @ escape_item_name item_name)) =
       Some (Dir (fmupd e (File []) fmempty))" and
    f: "lookup fs' (components (data_dir @ ''/'' @ escape_item_name item_name @ ''/'' @
        (warc_prefix self @ ''-'' @ escape_item_name item_name @ ''-'' @ strftime now) @ ''.warc.gz'')) = Some (File [])"
    by blast
  let ?dir = "data_dir @ ''/'' @ escape_item_name item_name"
  let ?base = "warc_prefix self @ ''-'' @ escape_item_name item_name @ ''-'' @ strftime now"
  have dir: "isdir fs' ?dir" using l by (simp add: isdir_def)
  have others: "\<forall>x. x \<noteq> e \<longrightarrow> lookup fs' (components ?dir @ [x]) = None"
    using l by (simp add: lookup_append)
  have name: "CHR ''/'' \<notin> set (warc_prefix self) \<longrightarrow> e = ?base @ ''.warc.gz''"
  proof
    assume "CHR ''/'' \<notin> set (warc_prefix self)"
    then have "CHR ''/'' \<notin> set (?base @ ''.warc.gz'')"
      by (simp add: escape_no_slash strftime_no_slash)
    then have "components (?base @ ''.warc.gz'') = [?base @ ''.warc.gz'']"
      by (rule components_single) simp
    with e show "e = ?base @ ''.warc.gz''" by simp
  qed
  show ?thesis
    apply (rule exI [of _ item_name])
    apply (rule exI [of _ data_dir])
    apply (rule exI [of _ ?dir])
    apply (rule exI [of _ ?base])
    apply (rule exI [of _ e])
    using n d it e l f dir others name by simp
qed

theorem PrepareDirectories_leaves_fresh_item_dir_witness:
  "PrepareDirectories_process example_task example_time example_item stale_fs =
     (Inr (), staged_item, staged_fs) \<and>
   lookup stale_fs (components ''data/smaug.fart.website_8080/wpull.log'') = Some (File ''old log'') \<and>
   staged_item ''item_dir'' = Some ''data/smaug.fart.website_8080'' \<and>
   lookup staged_fs (components ''data/smaug.fart.website_8080'') =
     Some (Dir (fmupd ''examplecity-smaug.fart.website_8080-20150321-120007.warc.gz'' (File []) fmempty)) \<and>
   lookup staged_fs (components ''data/smaug.fart.website_8080/wpull.log'') = None"
proof -
  have h: "PrepareDirectories_process example_task example_time example_item stale_fs =
     (Inr (), staged_item, staged_fs)"
    by (simp add: staged_item_def staged_fs_def first_attempt_def [symmetric] first_attempt_result)
  from PrepareDirectories_leaves_fresh_item_dir [OF h]
  obtain item_name data_dir item_dir warc_file_base e where
    f: "example_item ''item_name'' = Some item_name" "example_item ''data_dir'' = Some data_dir"
      "staged_item ''item_dir'' = Some item_dir"
      "item_dir = data_dir @ ''/'' @ escape_item_name item_name"
      "warc_file_base = warc_prefix example_task @ ''-'' @ escape_item_name item_name @ ''-'' @ strftime example_time"
      "lookup staged_fs (components item_dir) = Some (Dir (fmupd e (File []) fmempty))"
      "\<forall>x. x \<noteq> e \<longrightarrow> lookup staged_fs (components item_dir @ [x]) = None"
      "CHR ''/'' \<notin> set (warc_prefix example_task) \<longrightarrow> e = warc_file_base @ ''.warc.gz''"
    by blast
  from f(1,2) have n: "item_name = ''smaug.fart.website:8080''" "data_dir = ''data''"
    by (simp_all add: example_item_def)
  with f(4) have d: "item_dir = ''data/smaug.fart.website_8080''"
    by (simp add: escape_item_name_def replace_def)
  from f(5) n have b: "warc_file_base = ''examplecity-smaug.fart.website_8080-20150321-120007''"
    by (simp add: example_task_def example_time_def escape_item_name_def replace_def strftime_def
        pad2_def digit_def decimal.simps)
  from f(8) b have e: "e = ''examplecity-smaug.fart.website_8080-20150321-120007.warc.gz''"
    by (simp add: example_task_def)
  have c: "components ''data/smaug.fart.website_8080/wpull.log'' =
        components ''data/smaug.fart.website_8080'' @ [''wpull.log'']"
    by (simp add: components_def)
  from f(7) e d have gone: "lookup staged_fs (components ''data/smaug.fart.website_8080/wpull.log'') = None"
    unfolding c by simp
  have old: "lookup stale_fs (components ''data/smaug.fart.website_8080/wpull.log'') = Some (File ''old log'')"
    by (simp add: stale_fs_def components_def)
  from h f(3) f(6) d e gone old show ?thesis by simp
qed

lemma later_attempt_ok:
  "fst (PrepareDirectories_process example_task (example_time\<lparr>tm_sec := 8\<rparr>) staged_item staged_fs) = Inr ()"
  by (simp add: staged_item_def staged_fs_def first_attempt_result PrepareDirectories_process_def
      example_task_def example_time_def
      getitem_def escape_item_name_def replace_def
      join_slash_def isdir_def rmtree_def components_def makedirs_def dash3_def strftime_def pad2_def
      digit_def interpolate_def open_w_close_def Let_def decimal.simps fmdrop_fmupd)

text \<open>
  C7, as stated, fails: the second attempt on the example item, made right after the
  first while the clock still shows the same second, succeeds and computes the same
  \<open>warc_file_base\<close> as the first.
\<close>

theorem warc_file_base_repeats_within_a_second:
  "fst first_attempt = Inr () \<and> fst second_attempt = Inr () \<and>
   fst (snd first_attempt) ''item_name'' = fst (snd second_attempt) ''item_name'' \<and>
   fst (snd first_attempt) ''warc_file_base'' =
     Some ''examplecity-smaug.fart.website_8080-20150321-120007'' \<and>
   fst (snd second_attempt) ''warc_file_base'' =
     Some ''examplecity-smaug.fart.website_8080-20150321-120007''"
  by (simp add: first_attempt_result second_attempt_result)

text \<open>
  C7, amended. A stager run that returns normally sets \<open>warc_file_base\<close> to
  \<open>prefix-escaped_item_name-timestamp\<close>, the timestamp being the clock reading formatted
  to the second. Two such runs of one task for the same item name compute different
  \<open>warc_file_base\<close> values exactly when their clock readings differ in the year, month,
  day, hour, minute or second; two runs within the same second compute the same value.
\<close>

theorem warc_file_base_differs_iff_clock_differs:
  assumes r1: "PrepareDirectories_process self now1 item1 fs1 = (Inr (), item1', fs1')"
    and r2: "PrepareDirectories_process self now2 item2 fs2 = (Inr (), item2', fs2')"
    and same: "item1 ''item_name'' = item2 ''item_name''"
    and v: "valid_struct_time now1" "valid_struct_time now2"
  shows "\<exists>item_name. item1 ''item_name'' = Some item_name \<and>
     item1' ''warc_file_base'' =
       Some (warc_prefix self @ ''-'' @ escape_item_name item_name @ ''-'' @ strftime now1) \<and>
     item2' ''warc_file_base'' =
       Some (warc_prefix self @ ''-'' @ escape_item_name item_name @ ''-'' @ strftime now2) \<and>
     (item1' ''warc_file_base'' \<noteq> item2' ''warc_file_base'') = (now1 \<noteq> now2)"
proof -
  from stager_success [OF r1] obtain n1 where
    n1: "item1 ''item_name'' = Some n1" and
    b1: "item1' ''warc_file_base'' = Some (warc_prefix self @ ''-'' @ escape_item_name n1 @ ''-'' @ strftime now1)"
    by auto
  from stager_success [OF r2] obtain n2 where
    n2: "item2 ''item_name'' = Some n2" and
    b2: "item2' ''warc_file_base'' = Some (warc_prefix self @ ''-'' @ escape_item_name n2 @ ''-'' @ strftime now2)"
    by auto
  from same n1 n2 have eq: "n2 = n1" by simp
  have "(strftime now1 = strftime now2) = (now1 = now2)"
    using strftime_inj [OF v] by auto
  with n1 b1 b2 eq show ?thesis by auto
qed

theorem warc_file_base_differs_iff_clock_differs_witness:
  "PrepareDirectories_process example_task example_time example_item stale_fs =
     (Inr (), staged_item, staged_fs) \<and>
   fst (PrepareDirectories_process example_task (example_time\<lparr>tm_sec := 8\<rparr>) staged_item staged_fs) = Inr () \<and>
   example_item ''item_name'' = staged_item ''item_name'' \<and>
   valid_struct_time example_time \<and> valid_struct_time (example_time\<lparr>tm_sec := 8\<rparr>) \<and>
   staged_item ''warc_file_base'' \<noteq>
     fst (snd (PrepareDirectories_process example_task (example_time\<lparr>tm_sec := 8\<rparr>) staged_item staged_fs))
       ''warc_file_base''"
proof -
  let ?later = "PrepareDirectories_process example_task (example_time\<lparr>tm_sec := 8\<rparr>) staged_item staged_fs"
  have r1: "PrepareDirectories_process example_task example_time example_item stale_fs =
     (Inr (), staged_item, staged_fs)"
    by (simp add: staged_item_def staged_fs_def first_attempt_def [symmetric] first_attempt_result)
  have r2: "?later = (Inr (), fst (snd ?later), snd (snd ?later))"
    using later_attempt_ok by (cases ?later) simp
  have same: "example_item ''item_name'' = staged_item ''item_name''"
    by (simp add: example_item_def staged_item_def first_attempt_result)
  have v1: "valid_struct_time example_time" and v2: "valid_struct_time (example_time\<lparr>tm_sec := 8\<rparr>)"
    by (simp_all add: valid_struct_time_def example_time_def)
  have "example_time \<noteq> example_time\<lparr>tm_sec := 8\<rparr>"
    by (simp add: example_time_def)
  with warc_file_base_differs_iff_clock_differs [OF r1 r2 same v1 v2]
  have "staged_item ''warc_file_base'' \<noteq> fst (snd ?later) ''warc_file_base''"
    by blast
  with r1 later_attempt_ok same v1 v2 show ?thesis by simp
qed

subsection \<open>MoveFiles\<close>

lemma staged_item_fields:
  "staged_item ''item_dir'' = Some ''data/smaug.fart.website_8080''"
  "staged_item ''warc_file_base'' = Some ''examplecity-smaug.fart.website_8080-20150321-120007''"
  "staged_item ''data_dir'' = Some ''data''"
  "staged_item ''item_name'' = Some ''smaug.fart.website:8080''"
  "staged_item ''escaped_item_name'' = Some ''smaug.fart.website_8080''"
  by (simp_all add: staged_item_def first_attempt_result)

text \<open>
  C4. For every item with \<open>item_dir\<close> and \<open>warc_file_base\<close> set: if the uncompressed
  archive \<open>item_dir/warc_file_base.warc\<close> exists, the finalizer raises and the file
  system is returned unchanged, so nothing has been moved and nothing removed. Only
  when it is absent does the finalizer rename \<open>item_dir/warc_file_base.warc.gz\<close> to
  \<open>data_dir/warc_file_base.warc.gz\<close> and then remove the tree at \<open>item_dir\<close>; when that
  returns normally (and the destination lies neither inside \<open>item_dir\<close> nor above it),
  the destination holds what the compressed archive was and \<open>item_dir\<close> is gone.
\<close>

theorem MoveFiles_refuses_uncompressed_before_moving:
  assumes i: "item ''item_dir'' = Some item_dir" "item ''warc_file_base'' = Some base"
  shows
    "(exists_path fs (item_dir @ ''/'' @ base @ ''.warc'') \<longrightarrow>
        MoveFiles_process item fs = (Inl (Exception zlib_message), fs)) \<and>
     (\<forall>data_dir. \<not> exists_path fs (item_dir @ ''/'' @ base @ ''.warc'') \<and>
        item ''data_dir'' = Some data_dir \<longrightarrow>
        MoveFiles_process item fs =
          (case rename fs (item_dir @ ''/'' @ base @ ''.warc.gz'') (data_dir @ ''/'' @ base @ ''.warc.gz'') of
             (Inl e, fs1) \<Rightarrow> (Inl e, fs1)
           | (Inr u, fs1) \<Rightarrow> rmtree fs1 item_dir)) \<and>
     (\<forall>data_dir fs'. MoveFiles_process item fs = (Inr (), fs') \<and> item ''data_dir'' = Some data_dir \<and>
        \<not> prefix (components item_dir) (components (data_dir @ ''/'' @ base @ ''.warc.gz'')) \<and>
        \<not> prefix (components (data_dir @ ''/'' @ base @ ''.warc.gz'')) (components item_dir) \<longrightarrow>
        \<not> exists_path fs (item_dir @ ''/'' @ base @ ''.warc'') \<and>
        lookup fs (components (item_dir @ ''/'' @ base @ ''.warc.gz'')) \<noteq> None \<and>
        lookup fs' (components (data_dir @ ''/'' @ base @ ''.warc.gz'')) =
          lookup fs (components (item_dir @ ''/'' @ base @ ''.warc.gz'')) \<and>
        lookup fs' (components item_dir) = None)"
proof (intro conjI allI impI)
  assume "exists_path fs (item_dir @ ''/'' @ base @ ''.warc'')"
  with i show "MoveFiles_process item fs = (Inl (Exception zlib_message), fs)"
    by (rule MoveFiles_raises)
next
  fix data_dir
  assume "\<not> exists_path fs (item_dir @ ''/'' @ base @ ''.warc'') \<and> item ''data_dir'' = Some data_dir"
  with i show "MoveFiles_process item fs =
          (case rename fs (item_dir @ ''/'' @ base @ ''.warc.gz'') (data_dir @ ''/'' @ base @ ''.warc.gz'') of
             (Inl e, fs1) \<Rightarrow> (Inl e, fs1)
           | (Inr u, fs1) \<Rightarrow> rmtree fs1 item_dir)"
    by (simp add: MoveFiles_moves)
next
  fix data_dir fs'
  assume a: "MoveFiles_process item fs = (Inr (), fs') \<and> item ''data_dir'' = Some data_dir \<and>
        \<not> prefix (components item_dir) (components (data_dir @ ''/'' @ base @ ''.warc.gz'')) \<and>
        \<not> prefix (components (data_dir @ ''/'' @ base @ ''.warc.gz'')) (components item_dir)"
  then have s: "\<not> exists_path fs (item_dir @ ''/'' @ base @ ''.warc'') \<and>
     lookup fs (components (item_dir @ ''/'' @ base @ ''.warc.gz'')) \<noteq> None \<and>
     lookup fs' (components (data_dir @ ''/'' @ base @ ''.warc.gz'')) =
       lookup fs (components (item_dir @ ''/'' @ base @ ''.warc.gz'')) \<and>
     lookup fs' (components item_dir) = None"
    using MoveFiles_success [OF i, of data_dir fs fs'] by blast
  from s show "\<not> exists_path fs (item_dir @ ''/'' @ base @ ''.warc'')" by simp
  from s show "lookup fs (components (item_dir @ ''/'' @ base @ ''.warc.gz'')) \<noteq> None" by simp
  from s show "lookup fs' (components (data_dir @ ''/'' @ base @ ''.warc.gz'')) =
       lookup fs (components (item_dir @ ''/'' @ base @ ''.warc.gz''))" by simp
  from s show "lookup fs' (components item_dir) = None" by simp
qed

theorem MoveFiles_refuses_uncompressed_before_moving_witness:
  "staged_item ''item_dir'' = Some ''data/smaug.fart.website_8080'' \<and>
   staged_item ''warc_file_base'' = Some ''examplecity-smaug.fart.website_8080-20150321-120007'' \<and>
   exists_path uncompressed_fs
     ''data/smaug.fart.website_8080/examplecity-smaug.fart.website_8080-20150321-120007.warc'' \<and>
   MoveFiles_process staged_item uncompressed_fs = (Inl (Exception zlib_message), uncompressed_fs) \<and>
   fst (MoveFiles_process staged_item staged_fs) = Inr () \<and>
   lookup (snd (MoveFiles_process staged_item staged_fs))
     (components ''data/examplecity-smaug.fart.website_8080-20150321-120007.warc.gz'') = Some (File []) \<and>
   lookup (snd (MoveFiles_process staged_item staged_fs)) (components ''data/smaug.fart.website_8080'') = None"
proof -
  let ?d = "''data/smaug.fart.website_8080''"
  let ?b = "''examplecity-smaug.fart.website_8080-20150321-120007''"
  note t = MoveFiles_refuses_uncompressed_before_moving [OF staged_item_fields(1) staged_item_fields(2)]
  have x: "exists_path uncompressed_fs (?d @ ''/'' @ ?b @ ''.warc'')"
    by (simp add: exists_path_def uncompressed_fs_def components_def)
  with t [of uncompressed_fs] have r: "MoveFiles_process staged_item uncompressed_fs =
      (Inl (Exception zlib_message), uncompressed_fs)"
    by blast
  have ok: "fst (MoveFiles_process staged_item staged_fs) = Inr ()"
    by (simp add: staged_item_def staged_fs_def first_attempt_result MoveFiles_process_def interpolate_def
        exists_path_def components_def rename_def rmtree_def Let_def fmdrop_fmupd)
  then have ok': "MoveFiles_process staged_item staged_fs =
      (Inr (), snd (MoveFiles_process staged_item staged_fs))"
    by (cases "MoveFiles_process staged_item staged_fs") simp
  have ap: "\<not> prefix (components ?d) (components (''data'' @ ''/'' @ ?b @ ''.warc.gz''))"
    "\<not> prefix (components (''data'' @ ''/'' @ ?b @ ''.warc.gz'')) (components ?d)"
    by (simp_all add: components_def)
  have src: "lookup staged_fs (components (?d @ ''/'' @ ?b @ ''.warc.gz'')) = Some (File [])"
    by (simp add: staged_fs_def first_attempt_result components_def)
  from t [of staged_fs] ok' staged_item_fields(3) ap
  have "lookup (snd (MoveFiles_process staged_item staged_fs)) (components (''data'' @ ''/'' @ ?b @ ''.warc.gz'')) =
          lookup staged_fs (components (?d @ ''/'' @ ?b @ ''.warc.gz'')) \<and>
        lookup (snd (MoveFiles_process staged_item staged_fs)) (components ?d) = None"
    by blast
  with src x r ok staged_item_fields(1,2) show ?thesis by simp
qed

subsection \<open>WgetArgs\<close>

text \<open>
  C6, as stated, fails in its last part: the third provenance header carries the item
  name as it is, not the sanitised one. For the pipeline's own item the header reads
  \<open>examplecity-user: smaug.fart.website:8080\<close>, while the sanitised identifier is
  \<open>smaug.fart.website_8080\<close>; no header carries the latter.
\<close>

theorem WgetArgs_header_carries_raw_item_name:
  "staged_item ''escaped_item_name'' = Some ''smaug.fart.website_8080'' \<and>
   (case WgetArgs_realize ''./wpull'' None staged_item of
      Inl e \<Rightarrow> False
    | Inr args \<Rightarrow>
        option_values ''--warc-header'' args =
          [''operator: Archive Team'', ''examplecity-dld-script-version: 20150321.01'',
           ''examplecity-user: smaug.fart.website:8080''] \<and>
        has_option ''--warc-header'' ''examplecity-user: smaug.fart.website_8080'' args = False)"
  by (simp add: staged_item_def first_attempt_result WgetArgs_realize_def wget_args_def getitem_def
      interpolate_def VERSION_def)

text \<open>
  C6, amended. For every item with \<open>item_dir\<close>, \<open>warc_file_base\<close> and \<open>item_name\<close> set,
  whatever the executable and the bind address are, the builder returns an argument
  list in which \<open>--warc-file\<close> is followed by \<open>item_dir/warc_file_base\<close> and
  \<open>--warc-header\<close> is followed by the operator tag, by the pipeline version string,
  and by the item name, unsanitised.
\<close>

theorem WgetArgs_warc_target_and_headers:
  assumes "item ''item_dir'' = Some item_dir" and "item ''warc_file_base'' = Some warc_file_base"
    and "item ''item_name'' = Some item_name"
  shows "\<exists>args. WgetArgs_realize WPULL_EXE bind_address item = Inr args \<and>
     has_option ''--warc-file'' (item_dir @ ''/'' @ warc_file_base) args \<and>
     has_option ''--warc-header'' ''operator: Archive Team'' args \<and>
     has_option ''--warc-header'' (''examplecity-dld-script-version: '' @ VERSION) args \<and>
     has_option ''--warc-header'' (''examplecity-user: '' @ item_name) args"
  using assms
  by (cases bind_address)
     (simp_all add: WgetArgs_realize_def wget_args_def getitem_def interpolate_def VERSION_def)

theorem WgetArgs_warc_target_and_headers_witness:
  "staged_item ''item_dir'' = Some ''data/smaug.fart.website_8080'' \<and>
   staged_item ''warc_file_base'' = Some ''examplecity-smaug.fart.website_8080-20150321-120007'' \<and>
   staged_item ''item_name'' = Some ''smaug.fart.website:8080'' \<and>
   (\<exists>args. WgetArgs_realize ''./wpull'' None staged_item = Inr args \<and>
     has_option ''--warc-file''
       ''data/smaug.fart.website_8080/examplecity-smaug.fart.website_8080-20150321-120007'' args \<and>
     has_option ''--warc-header'' ''operator: Archive Team'' args \<and>
     has_option ''--warc-header'' ''examplecity-dld-script-version: 20150321.01'' args \<and>
     has_option ''--warc-header'' ''examplecity-user: smaug.fart.website:8080'' args)"
  using WgetArgs_warc_target_and_headers
          [OF staged_item_fields(1) staged_item_fields(2) staged_item_fields(4), of "''./wpull''" None]
        staged_item_fields
  by (simp add: VERSION_def)

subsection \<open>WgetDownload\<close>

text \<open>
  C3. The capture stage is configured with the accepted exit codes 0, 4, 7, 8 and two
  tries. If the first invocation exits with an accepted code, the stage succeeds after
  that one invocation. If it does not, the executable is invoked a second time; the
  stage succeeds if that exit code is accepted and otherwise reports the item as
  failed, after exactly two invocations.
\<close>

theorem WgetDownload_accepts_or_exhausts:
  "set accept_on_exit_code = {0, 4, 7, 8} \<and> max_tries = 2 \<and>
   (exe 0 \<in> set accept_on_exit_code \<longrightarrow> WgetDownload exe = (Succeeded, 1)) \<and>
   (exe 0 \<notin> set accept_on_exit_code \<and> exe 1 \<in> set accept_on_exit_code \<longrightarrow>
      WgetDownload exe = (Succeeded, 2)) \<and>
   (exe 0 \<notin> set accept_on_exit_code \<and> exe 1 \<notin> set accept_on_exit_code \<longrightarrow>
      WgetDownload exe = (ItemFailed, 2))"
  by (auto simp: WgetDownload_def max_tries_def accept_on_exit_code_def numeral_2_eq_2)

theorem WgetDownload_accepts_or_exhausts_witness:
  "(4::int) \<in> set accept_on_exit_code \<and> WgetDownload (\<lambda>k. 4) = (Succeeded, 1) \<and>
   (1::int) \<notin> set accept_on_exit_code \<and> WgetDownload (\<lambda>k. 1) = (ItemFailed, 2)"
proof -
  have a: "(4::int) \<in> set accept_on_exit_code" and b: "(1::int) \<notin> set accept_on_exit_code"
    by (simp_all add: accept_on_exit_code_def)
  from a WgetDownload_accepts_or_exhausts [of "\<lambda>k. 4"] have 1: "WgetDownload (\<lambda>k. 4) = (Succeeded, 1)"
    by blast
  from b WgetDownload_accepts_or_exhausts [of "\<lambda>k. 1"] have 2: "WgetDownload (\<lambda>k. 1) = (ItemFailed, 2)"
    by blast
  from a b 1 2 show ?thesis by simp
qed

end
